theory Spec2Isabelle
  imports Complex_Main "HOL-Library.Word" "HOL-Library.Signed_Division"
begin

section \<open>The example program \<open>example/c/simple.c\<close>\<close>

text \<open>
  The program opens a GLUT window, loads the OpenGL entry points through glad, prints the
  loaded version, checks the OpenGL 2.0 flag and enters the GLUT event loop, which calls
  the two callbacks \<open>reshape\<close> and \<open>display\<close>. The theory embeds the three functions of
  the file (\<open>display\<close>, \<open>reshape\<close>, \<open>main\<close>) as state transformers and proves the
  properties of the specification about them.
\<close>

subsection \<open>C integers\<close>

text \<open>
  A C \<open>int\<close> is a 32-bit two's complement value. \<open>w > 1\<close> is the signed comparison
  \<open>1 <s w\<close>. \<open>/\<close> and \<open>%\<close> truncate towards zero (\<open>sdiv\<close> and \<open>smod\<close> on the signed
  values); the program only divides by the constant 10, so neither a division by zero
  nor the overflow of \<open>INT_MIN / -1\<close> arises.
\<close>

type_synonym c_int = "32 word"

definition c_div :: "c_int \<Rightarrow> c_int \<Rightarrow> c_int" where
  "c_div a b = word_of_int (sint a sdiv sint b)"

definition c_mod :: "c_int \<Rightarrow> c_int \<Rightarrow> c_int" where
  "c_mod a b = word_of_int (sint a smod sint b)"

subsection \<open>Standard output: \<open>printf\<close>\<close>

text \<open>
  \<open>printf\<close> appends the formatted text to standard output. The formatter covers the
  conversions of the C library that the program uses: \<open>%d\<close> (a signed decimal \<open>int\<close>),
  \<open>%s\<close> (a string) and \<open>%%\<close>. A conversion with no argument of its type is undefined
  in C; the model stops the output there (no call of the program does that).
\<close>

definition digit_char :: "nat \<Rightarrow> char" where
  "digit_char d = ''0123456789'' ! d"

function dec_nat :: "nat \<Rightarrow> string" where
  "dec_nat n = (if n < 10 then [digit_char n] else dec_nat (n div 10) @ [digit_char (n mod 10)])"
  by pat_completeness auto
termination
  by (relation "measure (\<lambda>n. n)") auto

definition dec_int :: "int \<Rightarrow> string" where
  "dec_int i = (if i < 0 then CHR ''-'' # dec_nat (nat (- i)) else dec_nat (nat i))"

datatype printf_arg = Int_arg c_int | Str_arg string

fun sprintf :: "string \<Rightarrow> printf_arg list \<Rightarrow> string" where
  "sprintf [] args = []"
| "sprintf [c] args = (if c = CHR ''%'' then [] else [c])"
| "sprintf (c # k # fmt) args =
     (if c \<noteq> CHR ''%'' then c # sprintf (k # fmt) args
      else if k = CHR ''d'' then
        (case args of
           Int_arg i # args' \<Rightarrow> dec_int (sint i) @ sprintf fmt args'
         | _ \<Rightarrow> [])
      else if k = CHR ''s'' then
        (case args of
           Str_arg t # args' \<Rightarrow> t @ sprintf fmt args'
         | _ \<Rightarrow> [])
      else if k = CHR ''%'' then CHR ''%'' # sprintf fmt args
      else [])"

definition printf :: "string \<Rightarrow> printf_arg list \<Rightarrow> string \<Rightarrow> string" where
  "printf fmt args out = out @ sprintf fmt args"

subsection \<open>The OpenGL context\<close>

text \<open>
  The OpenGL entry points live in the driver, outside the repository. Their arguments of
  type \<open>GLfloat\<close> and \<open>GLdouble\<close> are modelled by the rational number the C literal
  denotes: \<open>0.0\<close> and \<open>1.0\<close> are exact, \<open>0.2f\<close> and \<open>0.7f\<close> are the nearest
  single-precision values. The symbolic constants of the OpenGL and GLUT headers are
  constructors, and a bit mask \<open>A | B\<close> of such constants is the set \<open>{A, B}\<close>.
\<close>

type_synonym gl_float = rat

definition float_0_2 :: gl_float where
  "float_0_2 = 13421773 / 67108864"

definition float_0_7 :: gl_float where
  "float_0_7 = 11744051 / 16777216"

datatype gl_buffer_bit = GL_COLOR_BUFFER_BIT | GL_DEPTH_BUFFER_BIT

datatype gl_capability = GL_DEPTH_TEST

datatype gl_string_name = GL_VERSION | GL_SHADING_LANGUAGE_VERSION

record gl_context =
  viewport :: "c_int \<times> c_int \<times> c_int \<times> c_int"
  clear_depth :: gl_float
  clear_color :: "gl_float \<times> gl_float \<times> gl_float \<times> gl_float"
  enabled :: "gl_capability set"
  color_buffer :: "(gl_float \<times> gl_float \<times> gl_float \<times> gl_float) option"
  depth_buffer :: "gl_float option"

text \<open>
  Modelled from the spec: the OpenGL calls \<open>glViewport\<close>, \<open>glClearDepth\<close>,
  \<open>glClearColor\<close>, \<open>glEnable\<close> and \<open>glClear\<close> ("set viewport", "clear depth",
  "clear color", "enable depth test", "clear buffers"). Each of the first four stores its
  arguments in the context; \<open>glClear\<close> fills the buffers named in the mask with the
  current clear values (\<open>None\<close> is a buffer never cleared).
\<close>

definition glViewport :: "c_int \<Rightarrow> c_int \<Rightarrow> c_int \<Rightarrow> c_int \<Rightarrow> gl_context \<Rightarrow> gl_context" where
  "glViewport x y w h g = g\<lparr>viewport := (x, y, w, h)\<rparr>"

definition glClearDepth :: "gl_float \<Rightarrow> gl_context \<Rightarrow> gl_context" where
  "glClearDepth d g = g\<lparr>clear_depth := d\<rparr>"

definition glClearColor ::
  "gl_float \<Rightarrow> gl_float \<Rightarrow> gl_float \<Rightarrow> gl_float \<Rightarrow> gl_context \<Rightarrow> gl_context" where
  "glClearColor r gr b a g = g\<lparr>clear_color := (r, gr, b, a)\<rparr>"

definition glEnable :: "gl_capability \<Rightarrow> gl_context \<Rightarrow> gl_context" where
  "glEnable cap g = g\<lparr>enabled := insert cap (enabled g)\<rparr>"

definition glClear :: "gl_buffer_bit set \<Rightarrow> gl_context \<Rightarrow> gl_context" where
  "glClear bits g =
     g\<lparr>color_buffer :=
         (if GL_COLOR_BUFFER_BIT \<in> bits then Some (clear_color g) else color_buffer g),
       depth_buffer :=
         (if GL_DEPTH_BUFFER_BIT \<in> bits then Some (clear_depth g) else depth_buffer g)\<rparr>"

subsection \<open>The windowing toolkit\<close>

datatype glut_mode = GLUT_RGBA | GLUT_DEPTH | GLUT_DOUBLE

text \<open>The two functions of the file whose address is registered as a callback.\<close>

datatype reshape_callback = Fn_reshape

datatype display_callback = Fn_display

record glut_state =
  init_args :: "string list option"
  display_mode :: "glut_mode set"
  init_window_size :: "c_int \<times> c_int"
  window_title :: "string option"
  reshape_func :: "reshape_callback option"
  display_func :: "display_callback option"
  buffer_swaps :: nat
  redisplay_posted :: bool

text \<open>
  Modelled from the spec: the GLUT calls \<open>glutInit\<close>, \<open>glutInitDisplayMode\<close>,
  \<open>glutInitWindowSize\<close>, \<open>glutCreateWindow\<close>, \<open>glutReshapeFunc\<close>, \<open>glutDisplayFunc\<close>,
  \<open>glutSwapBuffers\<close> and \<open>glutPostRedisplay\<close> ("init", "set display mode", "set window
  size", "create window", "register reshape callback", "register display callback",
  "swap buffers", "request redisplay"). Each records what it was given; swaps are
  counted.
\<close>

definition glutInit :: "string list \<Rightarrow> glut_state \<Rightarrow> glut_state" where
  "glutInit args t = t\<lparr>init_args := Some args\<rparr>"

definition glutInitDisplayMode :: "glut_mode set \<Rightarrow> glut_state \<Rightarrow> glut_state" where
  "glutInitDisplayMode m t = t\<lparr>display_mode := m\<rparr>"

definition glutInitWindowSize :: "c_int \<Rightarrow> c_int \<Rightarrow> glut_state \<Rightarrow> glut_state" where
  "glutInitWindowSize w h t = t\<lparr>init_window_size := (w, h)\<rparr>"

definition glutCreateWindow :: "string \<Rightarrow> glut_state \<Rightarrow> glut_state" where
  "glutCreateWindow title t = t\<lparr>window_title := Some title\<rparr>"

definition glutReshapeFunc :: "reshape_callback \<Rightarrow> glut_state \<Rightarrow> glut_state" where
  "glutReshapeFunc f t = t\<lparr>reshape_func := Some f\<rparr>"

definition glutDisplayFunc :: "display_callback \<Rightarrow> glut_state \<Rightarrow> glut_state" where
  "glutDisplayFunc f t = t\<lparr>display_func := Some f\<rparr>"

definition glutSwapBuffers :: "glut_state \<Rightarrow> glut_state" where
  "glutSwapBuffers t = t\<lparr>buffer_swaps := Suc (buffer_swaps t)\<rparr>"

definition glutPostRedisplay :: "glut_state \<Rightarrow> glut_state" where
  "glutPostRedisplay t = t\<lparr>redisplay_posted := True\<rparr>"

subsection \<open>The state of the program\<close>

text \<open>
  The two file-scope variables \<open>width\<close> and \<open>height\<close>, and the world the program acts
  on: the OpenGL context, the toolkit and standard output. The variables are \<open>static\<close>,
  so the libraries cannot name them: every library call changes \<open>gl\<close>, \<open>glut\<close> or
  \<open>stdout\<close> only.
\<close>

record state =
  width :: c_int
  height :: c_int
  gl :: gl_context
  glut :: glut_state
  stdout :: string

text \<open>\<open>static int width = 600, height = 600;\<close> and a world nothing has acted on yet.\<close>

definition initial_gl :: gl_context where
  "initial_gl =
     \<lparr>viewport = (0, 0, 0, 0), clear_depth = 1, clear_color = (0, 0, 0, 0), enabled = {},
      color_buffer = None, depth_buffer = None\<rparr>"

definition initial_glut :: glut_state where
  "initial_glut =
     \<lparr>init_args = None, display_mode = {}, init_window_size = (300, 300),
      window_title = None, reshape_func = None, display_func = None, buffer_swaps = 0,
      redisplay_posted = False\<rparr>"

definition initial_state :: state where
  "initial_state =
     \<lparr>width = 600, height = 600, gl = initial_gl, glut = initial_glut, stdout = []\<rparr>"

subsection \<open>The callbacks\<close>

definition display :: "state \<Rightarrow> state" where
  "display s =
     (let s = s\<lparr>gl := glClearColor 1 float_0_2 float_0_7 1 (gl s)\<rparr>;
          s = s\<lparr>gl := glClear {GL_COLOR_BUFFER_BIT, GL_DEPTH_BUFFER_BIT} (gl s)\<rparr>;
          s = s\<lparr>glut := glutSwapBuffers (glut s)\<rparr>;
          s = s\<lparr>glut := glutPostRedisplay (glut s)\<rparr>
      in s)"

definition reshape :: "c_int \<Rightarrow> c_int \<Rightarrow> state \<Rightarrow> state" where
  "reshape w h s =
     (let s = s\<lparr>width := (if 1 <s w then w else 1)\<rparr>;
          s = s\<lparr>height := (if 1 <s h then h else 1)\<rparr>;
          s = s\<lparr>gl := glViewport 0 0 (width s) (height s) (gl s)\<rparr>;
          s = s\<lparr>gl := glClearDepth 1 (gl s)\<rparr>;
          s = s\<lparr>gl := glClearColor 0 0 0 0 (gl s)\<rparr>;
          s = s\<lparr>gl := glEnable GL_DEPTH_TEST (gl s)\<rparr>
      in s)"

subsection \<open>The event loop\<close>

text \<open>
  \<open>glutMainLoop\<close> does not return; it calls the registered callbacks as window events
  arrive. The events are an input of the run, and the model runs the loop over a finite
  prefix of them: every state the loop passes through is the final state for the prefix
  that ends there. An event whose callback is not registered changes nothing.
\<close>

datatype event = Reshape_event c_int c_int | Display_event

fun dispatch :: "event \<Rightarrow> state \<Rightarrow> state" where
  "dispatch (Reshape_event w h) s =
     (case reshape_func (glut s) of Some Fn_reshape \<Rightarrow> reshape w h s | None \<Rightarrow> s)"
| "dispatch Display_event s =
     (case display_func (glut s) of Some Fn_display \<Rightarrow> display s | None \<Rightarrow> s)"

fun glutMainLoop :: "event list \<Rightarrow> state \<Rightarrow> state" where
  "glutMainLoop [] s = s"
| "glutMainLoop (e # es) s = glutMainLoop es (dispatch e s)"

subsection \<open>The entry point\<close>

text \<open>
  What the run receives from outside: the command line, the value that
  \<open>gladLoadGLInternalLoader()\<close> returns, the value of the flag \<open>GLAD_GL_VERSION_2_0\<close>
  after loading (both belong to the generated loader, which is not part of the file), the
  two strings of \<open>glGetString\<close>, and the window events.
\<close>

record env =
  argv :: "string list"
  gladLoadGLInternalLoader :: c_int
  GLAD_GL_VERSION_2_0 :: c_int
  glGetString :: "gl_string_name \<Rightarrow> string"
  events :: "event list"

text \<open>
  How \<open>main\<close> ends: by calling \<open>exit\<close>, by returning, or not at all because it is inside
  \<open>glutMainLoop\<close> (the \<open>return 0\<close> after the loop is never reached).
\<close>

datatype outcome = Exit_called c_int | Returned c_int | In_main_loop

definition main :: "env \<Rightarrow> state \<Rightarrow> outcome \<times> state" where
  "main e s =
     (let s = s\<lparr>glut := glutInit (argv e) (glut s)\<rparr>;
          s = s\<lparr>glut := glutInitDisplayMode {GLUT_RGBA, GLUT_DEPTH, GLUT_DOUBLE} (glut s)\<rparr>;
          s = s\<lparr>glut := glutInitWindowSize (width s) (height s) (glut s)\<rparr>;
          s = s\<lparr>glut := glutCreateWindow ''cookie'' (glut s)\<rparr>;
          s = s\<lparr>glut := glutReshapeFunc Fn_reshape (glut s)\<rparr>;
          s = s\<lparr>glut := glutDisplayFunc Fn_display (glut s)\<rparr>;
          version = gladLoadGLInternalLoader e
      in if version = 0 then
           (let s = s\<lparr>stdout := printf ''Something went wrong!\<newline>'' [] (stdout s)\<rparr>
            in (Exit_called (- 1), s))
         else
           (let s = s\<lparr>stdout :=
                  printf ''OpenGL %d.%d\<newline>''
                    [Int_arg (c_div version 10), Int_arg (c_mod version 10)] (stdout s)\<rparr>
            in if GLAD_GL_VERSION_2_0 e = 0 then
                 (let s = s\<lparr>stdout :=
                        printf ''Your system doesn't support OpenGL >= 2!\<newline>'' []
                          (stdout s)\<rparr>
                  in (Returned (- 1), s))
               else
                 (let s = s\<lparr>stdout :=
                        printf ''OpenGL %s, GLSL %s\<newline>''
                          [Str_arg (glGetString e GL_VERSION),
                           Str_arg (glGetString e GL_SHADING_LANGUAGE_VERSION)] (stdout s)\<rparr>;
                      s = glutMainLoop (events e) s
                  in (In_main_loop, s))))"

subsection \<open>Runs of the program\<close>

text \<open>
  Everything that can happen to the state: a call of \<open>reshape\<close>, a call of \<open>display\<close>,
  a run of \<open>main\<close> (with the event loop inside it), and a library call, which may leave
  any OpenGL context, toolkit state and output behind but cannot touch the two \<open>static\<close>
  variables.
\<close>

datatype operation =
  Op_reshape c_int c_int
| Op_display
| Op_main env
| Op_library gl_context glut_state string

fun perform :: "operation \<Rightarrow> state \<Rightarrow> state" where
  "perform (Op_reshape w h) s = reshape w h s"
| "perform Op_display s = display s"
| "perform (Op_main e) s = snd (main e s)"
| "perform (Op_library g t out) s = s\<lparr>gl := g, glut := t, stdout := out\<rparr>"

fun perform_all :: "operation list \<Rightarrow> state \<Rightarrow> state" where
  "perform_all [] s = s"
| "perform_all (operation # ops) s = perform_all ops (perform operation s)"

text \<open>A concrete environment for examples: a driver that reports OpenGL 4.6.\<close>

fun sample_strings :: "gl_string_name \<Rightarrow> string" where
  "sample_strings GL_VERSION = ''4.6.0''"
| "sample_strings GL_SHADING_LANGUAGE_VERSION = ''4.60''"

definition sample_env :: "c_int \<Rightarrow> c_int \<Rightarrow> event list \<Rightarrow> env" where
  "sample_env version flag evs =
     \<lparr>argv = [''simple''], gladLoadGLInternalLoader = version, GLAD_GL_VERSION_2_0 = flag,
      glGetString = sample_strings, events = evs\<rparr>"

section \<open>Facts about the embedding\<close>

lemma sint_word_of_int_32:
  "- 2147483648 \<le> k \<Longrightarrow> k < 2147483648 \<Longrightarrow> sint (word_of_int k :: c_int) = k"
  by (simp add: sint_sbintrunc' signed_take_bit_int_eq_self)

lemma sint_c_div_10: "sint (c_div v 10) = sint v sdiv 10"
proof -
  have b: "- 2147483648 \<le> sint v" "sint v < 2147483648"
    using sint_ge [of v] sint_lt [of v] by simp_all
  have "\<bar>sint v sdiv 10\<bar> = \<bar>sint v\<bar> div 10"
    by (auto simp add: signed_divide_int_def abs_mult abs_sgn_eq)
  then have "- 2147483648 < sint v sdiv 10" "sint v sdiv 10 < 2147483648"
    using b by arith+
  then show ?thesis
    unfolding c_div_def by (simp add: sint_word_of_int_32)
qed

lemma sint_c_mod_10: "sint (c_mod v 10) = sint v smod 10"
proof -
  have "\<bar>sint v smod 10\<bar> < 10"
    by (simp add: signed_modulo_int_def abs_mult abs_sgn_eq)
  then have "- 2147483648 \<le> sint v smod 10" "sint v smod 10 < 2147483648"
    by linarith+
  then show ?thesis
    unfolding c_mod_def by (simp add: sint_word_of_int_32)
qed

lemma sprintf_loader_failed:
  "sprintf ''Something went wrong!\<newline>'' [] = ''Something went wrong!\<newline>''"
  by simp

lemma sprintf_unsupported:
  "sprintf ''Your system doesn't support OpenGL >= 2!\<newline>'' [] =
     ''Your system doesn't support OpenGL >= 2!\<newline>''"
  by simp

lemma sprintf_version:
  "sprintf ''OpenGL %d.%d\<newline>'' [Int_arg a, Int_arg b] =
     ''OpenGL '' @ dec_int (sint a) @ ''.'' @ dec_int (sint b) @ ''\<newline>''"
  by simp

lemma sprintf_strings:
  "sprintf ''OpenGL %s, GLSL %s\<newline>'' [Str_arg a, Str_arg b] =
     ''OpenGL '' @ a @ '', GLSL '' @ b @ ''\<newline>''"
  by simp

lemma width_reshape: "width (reshape w h s) = (if 1 <s w then w else 1)"
  by (simp add: reshape_def Let_def)

lemma height_reshape: "height (reshape w h s) = (if 1 <s h then h else 1)"
  by (simp add: reshape_def Let_def)

lemma gl_reshape:
  "gl (reshape w h s) =
     (gl s)\<lparr>viewport := (0, 0, if 1 <s w then w else 1, if 1 <s h then h else 1),
       clear_depth := 1, clear_color := (0, 0, 0, 0),
       enabled := insert GL_DEPTH_TEST (enabled (gl s))\<rparr>"
  by (simp add: reshape_def Let_def glViewport_def glClearDepth_def glClearColor_def
      glEnable_def)

lemma glut_reshape: "glut (reshape w h s) = glut s"
  by (simp add: reshape_def Let_def)

lemma stdout_reshape: "stdout (reshape w h s) = stdout s"
  by (simp add: reshape_def Let_def)

lemma width_display: "width (display s) = width s"
  by (simp add: display_def Let_def)

lemma height_display: "height (display s) = height s"
  by (simp add: display_def Let_def)

lemma stdout_display: "stdout (display s) = stdout s"
  by (simp add: display_def Let_def)

lemma stdout_dispatch: "stdout (dispatch ev s) = stdout s"
  by (cases ev) (simp_all add: stdout_reshape stdout_display
      split: option.splits reshape_callback.splits display_callback.splits)

lemma stdout_glutMainLoop: "stdout (glutMainLoop es s) = stdout s"
  by (induction es arbitrary: s) (simp_all add: stdout_dispatch)

lemma clamp_positive: "1 \<le>s (if 1 <s w then w else (1::c_int))"
  by (simp add: word_sle_eq word_sless_alt)

lemma positive_dispatch:
  "1 \<le>s width s \<and> 1 \<le>s height s \<Longrightarrow>
   1 \<le>s width (dispatch ev s) \<and> 1 \<le>s height (dispatch ev s)"
  by (cases ev)
    (simp_all add: width_reshape height_reshape width_display height_display clamp_positive
      split: option.splits reshape_callback.splits display_callback.splits)

lemma positive_glutMainLoop:
  "1 \<le>s width s \<and> 1 \<le>s height s \<Longrightarrow>
   1 \<le>s width (glutMainLoop es s) \<and> 1 \<le>s height (glutMainLoop es s)"
proof (induction es arbitrary: s)
  case Nil
  then show ?case by simp
next
  case (Cons ev es)
  from Cons.prems have "1 \<le>s width (dispatch ev s) \<and> 1 \<le>s height (dispatch ev s)"
    by (rule positive_dispatch)
  then show ?case using Cons.IH by simp
qed

lemma fst_main:
  "fst (main e s) =
     (if gladLoadGLInternalLoader e = 0 then Exit_called (- 1)
      else if GLAD_GL_VERSION_2_0 e = 0 then Returned (- 1)
      else In_main_loop)"
  by (simp add: main_def Let_def)

lemma stdout_main:
  "stdout (snd (main e s)) =
     stdout s @
     (if gladLoadGLInternalLoader e = 0 then ''Something went wrong!\<newline>''
      else ''OpenGL '' @ dec_int (sint (gladLoadGLInternalLoader e) sdiv 10) @ ''.'' @
           dec_int (sint (gladLoadGLInternalLoader e) smod 10) @ ''\<newline>'' @
        (if GLAD_GL_VERSION_2_0 e = 0 then ''Your system doesn't support OpenGL >= 2!\<newline>''
         else ''OpenGL '' @ glGetString e GL_VERSION @ '', GLSL '' @
              glGetString e GL_SHADING_LANGUAGE_VERSION @ ''\<newline>''))"
  by (simp add: main_def Let_def printf_def sprintf_loader_failed sprintf_unsupported
      sprintf_version sprintf_strings stdout_glutMainLoop sint_c_div_10 sint_c_mod_10
      del: sprintf.simps)

lemma positive_main:
  "1 \<le>s width s \<and> 1 \<le>s height s \<Longrightarrow>
   1 \<le>s width (snd (main e s)) \<and> 1 \<le>s height (snd (main e s))"
  by (simp add: main_def Let_def positive_glutMainLoop del: sprintf.simps)

lemma clamp_sint: "sint (if 1 <s w then w else (1::c_int)) = max 1 (sint w)"
  by (simp add: word_sless_alt max_def)

lemma main_ignores_flag:
  "gladLoadGLInternalLoader e = 0 \<Longrightarrow> main (e\<lparr>GLAD_GL_VERSION_2_0 := flag\<rparr>) s = main e s"
  by (simp add: main_def Let_def del: sprintf.simps)

lemma main_ignores_events:
  "gladLoadGLInternalLoader e = 0 \<or> GLAD_GL_VERSION_2_0 e = 0 \<Longrightarrow>
   main (e\<lparr>events := evs\<rparr>) s = main e s"
  by (auto simp add: main_def Let_def simp del: sprintf.simps)

lemma gl_main_no_loop:
  "gladLoadGLInternalLoader e = 0 \<or> GLAD_GL_VERSION_2_0 e = 0 \<Longrightarrow>
   gl (snd (main e s)) = gl s \<and> width (snd (main e s)) = width s \<and>
   height (snd (main e s)) = height s"
  by (auto simp add: main_def Let_def simp del: sprintf.simps)

lemma positive_perform:
  "1 \<le>s width s \<and> 1 \<le>s height s \<Longrightarrow>
   1 \<le>s width (perform operation s) \<and> 1 \<le>s height (perform operation s)"
  by (cases operation)
    (simp_all add: width_reshape height_reshape clamp_positive width_display
      height_display positive_main)

lemma positive_perform_all:
  "1 \<le>s width s \<and> 1 \<le>s height s \<Longrightarrow>
   1 \<le>s width (perform_all ops s) \<and> 1 \<le>s height (perform_all ops s)"
proof (induction ops arbitrary: s)
  case Nil
  then show ?case by simp
next
  case (Cons operation ops)
  have "1 \<le>s width (perform operation s) \<and> 1 \<le>s height (perform operation s)"
    using Cons.prems by (rule positive_perform)
  then show ?case using Cons.IH by simp
qed

lemma dec_int_of_nat: "dec_int (int n) = dec_nat n"
  by (simp add: dec_int_def)

lemma decode_encoded_version:
  assumes "k = 10 * int major + int minor" and "minor < 10"
  shows "k sdiv 10 = int major \<and> k smod 10 = int minor"
  using assms
  by (simp add: signed_divide_int_def signed_modulo_int_def sgn_if abs_if) 

lemma display_window_size:
  "display (s\<lparr>width := a, height := b, glut := (glut s)\<lparr>init_window_size := p\<rparr>\<rparr>) =
     (display s)\<lparr>width := a, height := b,
       glut := (glut (display s))\<lparr>init_window_size := p\<rparr>\<rparr>"
  by (simp add: display_def Let_def glutSwapBuffers_def glutPostRedisplay_def)

lemma dispatch_display_window_size:
  "dispatch Display_event
       (s\<lparr>width := a, height := b, glut := (glut s)\<lparr>init_window_size := p\<rparr>\<rparr>) =
     (dispatch Display_event s)\<lparr>width := a, height := b,
       glut := (glut (dispatch Display_event s))\<lparr>init_window_size := p\<rparr>\<rparr>"
  by (simp add: display_window_size split: option.splits display_callback.splits)

lemma glutMainLoop_display_only:
  assumes "\<forall>ev \<in> set es. ev = Display_event"
  shows "glutMainLoop es
       (s\<lparr>width := a, height := b, glut := (glut s)\<lparr>init_window_size := p\<rparr>\<rparr>) =
     (glutMainLoop es s)\<lparr>width := a, height := b,
       glut := (glut (glutMainLoop es s))\<lparr>init_window_size := p\<rparr>\<rparr>"
  using assms
proof (induction es arbitrary: s)
  case Nil
  then show ?case by simp
next
  case (Cons ev es)
  then have ev: "ev = Display_event" and rest: "\<forall>ev \<in> set es. ev = Display_event"
    by simp_all
  show ?case
    unfolding ev glutMainLoop.simps dispatch_display_window_size
    by (rule Cons.IH [OF rest])
qed

lemma dims_glutMainLoop_display_only:
  assumes "\<forall>ev \<in> set es. ev = Display_event"
  shows "width (glutMainLoop es s) = width s \<and> height (glutMainLoop es s) = height s"
  using assms
  by (induction es arbitrary: s)
    (simp_all add: width_display height_display
      split: option.splits display_callback.splits)

lemma window_size_display: "init_window_size (glut (display s)) = init_window_size (glut s)"
  by (simp add: display_def Let_def glutSwapBuffers_def glutPostRedisplay_def)

lemma window_size_dispatch:
  "init_window_size (glut (dispatch ev s)) = init_window_size (glut s)"
  by (cases ev)
    (simp_all add: glut_reshape window_size_display
      split: option.splits reshape_callback.splits display_callback.splits)

lemma window_size_glutMainLoop:
  "init_window_size (glut (glutMainLoop es s)) = init_window_size (glut s)"
  by (induction es arbitrary: s) (simp_all add: window_size_dispatch)

lemma window_size_main: "init_window_size (glut (snd (main e s))) = (width s, height s)"
  by (simp add: main_def Let_def window_size_glutMainLoop glutInit_def
      glutInitDisplayMode_def glutInitWindowSize_def glutCreateWindow_def
      glutReshapeFunc_def glutDisplayFunc_def del: sprintf.simps)

lemma dims_main_display_only:
  assumes "\<forall>ev \<in> set (events e). ev = Display_event"
  shows "width (snd (main e s)) = width s \<and> height (snd (main e s)) = height s"
  using assms
  by (simp add: main_def Let_def dims_glutMainLoop_display_only del: sprintf.simps)

lemma glutMainLoop_display_only_eq:
  assumes "\<forall>ev \<in> set es. ev = Display_event"
    and "s' = s\<lparr>width := a, height := b, glut := (glut s)\<lparr>init_window_size := p\<rparr>\<rparr>"
  shows "glutMainLoop es s' =
     (glutMainLoop es s)\<lparr>width := a, height := b,
       glut := (glut (glutMainLoop es s))\<lparr>init_window_size := p\<rparr>\<rparr>"
  unfolding assms(2) using assms(1) by (rule glutMainLoop_display_only)

lemma main_window_size:
  assumes "\<forall>ev \<in> set (events e). ev = Display_event"
  shows "snd (main e (s\<lparr>width := a, height := b\<rparr>)) =
     (snd (main e s))\<lparr>width := a, height := b,
       glut := (glut (snd (main e s)))\<lparr>init_window_size := (a, b)\<rparr>\<rparr>"
proof (cases "gladLoadGLInternalLoader e = 0 \<or> GLAD_GL_VERSION_2_0 e = 0")
  case True
  then show ?thesis
    by (auto simp add: main_def Let_def glutInit_def glutInitDisplayMode_def
        glutInitWindowSize_def glutCreateWindow_def glutReshapeFunc_def glutDisplayFunc_def
        simp del: sprintf.simps)
next
  case False
  then have run: "gladLoadGLInternalLoader e \<noteq> 0" "GLAD_GL_VERSION_2_0 e \<noteq> 0"
    by simp_all
  show ?thesis
    unfolding main_def Let_def using run
    apply (simp del: sprintf.simps)
    apply (rule glutMainLoop_display_only_eq [OF assms])
    apply (simp add: glutInit_def glutInitDisplayMode_def glutInitWindowSize_def
        glutCreateWindow_def glutReshapeFunc_def glutDisplayFunc_def del: sprintf.simps)
    done
qed

section \<open>The properties of the specification\<close>

text \<open>
  Claim C1. For every pair of C integers \<open>(w, h)\<close>, \<open>reshape w h\<close> (the resize callback)
  stores \<open>w\<close> clamped to a minimum of 1 as the width and \<open>h\<close> clamped to a minimum of 1
  as the height, read as signed values: for \<open>w \<ge> 1\<close> and \<open>h \<ge> 1\<close> the stored values
  are exactly \<open>w\<close> and \<open>h\<close>, and for \<open>w \<le> 0\<close> (\<open>h \<le> 0\<close>) the stored width (height)
  is 1.
\<close>

theorem reshape_clamps_dimensions:
  "sint (width (reshape w h s)) = max 1 (sint w) \<and>
   sint (height (reshape w h s)) = max 1 (sint h) \<and>
   (1 \<le>s w \<longrightarrow> width (reshape w h s) = w) \<and>
   (1 \<le>s h \<longrightarrow> height (reshape w h s) = h) \<and>
   (w \<le>s 0 \<longrightarrow> width (reshape w h s) = 1) \<and>
   (h \<le>s 0 \<longrightarrow> height (reshape w h s) = 1)"
proof -
  have "1 \<le>s x \<Longrightarrow> (if 1 <s x then x else 1) = x" for x :: c_int
    by (auto simp add: word_sless_eq)
  moreover have "x \<le>s 0 \<Longrightarrow> (if 1 <s x then x else 1) = 1" for x :: c_int
    by (simp add: word_sle_eq word_sless_alt)
  ultimately show ?thesis
    by (simp add: width_reshape height_reshape clamp_sint)
qed

text \<open>
  The theorem at the sizes \<open>(800, -3)\<close> and \<open>(-3, 800)\<close>.
\<close>

theorem reshape_clamps_dimensions_witness:
  "1 \<le>s (800 :: c_int) \<and> (- 3 :: c_int) \<le>s 0 \<and>
   width (reshape 800 (- 3) initial_state) = 800 \<and>
   height (reshape 800 (- 3) initial_state) = 1 \<and>
   width (reshape (- 3) 800 initial_state) = 1 \<and>
   height (reshape (- 3) 800 initial_state) = 800"
  using reshape_clamps_dimensions [of 800 "- 3" initial_state]
    reshape_clamps_dimensions [of "- 3" 800 initial_state]
  by (simp add: word_sle_eq)

text \<open>
  Claim C2. If the loader returns version 0, \<open>main\<close> prints \<open>Something went wrong!\<close>
  and ends by calling \<open>exit\<close> with the nonzero status \<open>-1\<close>. The capability flag is not
  consulted: whatever its value, the run is the same.
\<close>

theorem loader_failure_exits:
  assumes "gladLoadGLInternalLoader e = 0"
  shows "fst (main e s) = Exit_called (- 1) \<and> (- 1 :: c_int) \<noteq> 0 \<and>
    stdout (snd (main e s)) = stdout s @ ''Something went wrong!\<newline>'' \<and>
    main (e\<lparr>GLAD_GL_VERSION_2_0 := flag\<rparr>) s = main e s"
  using assms by (simp add: fst_main stdout_main main_ignores_flag)

text \<open>
  The theorem for a loader that fails, run from the initial state.
\<close>

theorem loader_failure_exits_witness:
  "gladLoadGLInternalLoader (sample_env 0 1 [Display_event]) = 0 \<and>
   fst (main (sample_env 0 1 [Display_event]) initial_state) = Exit_called (- 1) \<and>
   stdout (snd (main (sample_env 0 1 [Display_event]) initial_state)) =
     ''Something went wrong!\<newline>''"
  using loader_failure_exits [of "sample_env 0 1 [Display_event]" initial_state]
  by (simp add: sample_env_def initial_state_def)

text \<open>
  Claim C3. If the loader returns a nonzero version and the OpenGL 2.0 flag is false,
  \<open>main\<close> prints \<open>Your system doesn't support OpenGL >= 2!\<close> and returns the nonzero
  status \<open>-1\<close> (a return, not a call of \<open>exit\<close>). The event loop is not entered: no
  window event has any effect on the run, and no callback has changed the stored
  dimensions or the OpenGL context.
\<close>

theorem capability_failure_returns:
  assumes "gladLoadGLInternalLoader e \<noteq> 0" and "GLAD_GL_VERSION_2_0 e = 0"
  shows "fst (main e s) = Returned (- 1) \<and> (- 1 :: c_int) \<noteq> 0 \<and>
    stdout (snd (main e s)) =
      stdout s @ ''OpenGL '' @ dec_int (sint (gladLoadGLInternalLoader e) sdiv 10) @ ''.'' @
      dec_int (sint (gladLoadGLInternalLoader e) smod 10) @ ''\<newline>'' @
      ''Your system doesn't support OpenGL >= 2!\<newline>'' \<and>
    main (e\<lparr>events := evs\<rparr>) s = main e s \<and>
    gl (snd (main e s)) = gl s \<and> width (snd (main e s)) = width s \<and>
    height (snd (main e s)) = height s"
  using assms by (simp add: fst_main stdout_main main_ignores_events gl_main_no_loop)

text \<open>
  The theorem for a loader that reports OpenGL 1.5 without the 2.0 flag, with a resize
  event waiting.
\<close>

theorem capability_failure_returns_witness:
  "gladLoadGLInternalLoader (sample_env 15 0 [Reshape_event 5 5]) \<noteq> 0 \<and>
   GLAD_GL_VERSION_2_0 (sample_env 15 0 [Reshape_event 5 5]) = 0 \<and>
   fst (main (sample_env 15 0 [Reshape_event 5 5]) initial_state) = Returned (- 1) \<and>
   width (snd (main (sample_env 15 0 [Reshape_event 5 5]) initial_state)) = 600"
  using capability_failure_returns [of "sample_env 15 0 [Reshape_event 5 5]" initial_state]
  by (simp add: sample_env_def initial_state_def)

text \<open>
  Claim C4 as stated fails. With a loader that reports version 15 and a false 2.0 flag,
  the capability check fails, and the output is the version line \<open>OpenGL 1.5\<close> followed
  by the capability diagnostic, not the diagnostic alone: line 54 prints the version
  before line 55 checks the flag.
\<close>

theorem version_line_only_on_success_counterexample:
  "gladLoadGLInternalLoader (sample_env 15 0 []) = 15 \<and>
   GLAD_GL_VERSION_2_0 (sample_env 15 0 []) = 0 \<and>
   fst (main (sample_env 15 0 []) initial_state) = Returned (- 1) \<and>
   stdout (snd (main (sample_env 15 0 []) initial_state)) =
     ''OpenGL 1.5\<newline>Your system doesn't support OpenGL >= 2!\<newline>'' \<and>
   stdout (snd (main (sample_env 15 0 []) initial_state)) \<noteq>
     ''Your system doesn't support OpenGL >= 2!\<newline>''"
  by (simp add: fst_main stdout_main sample_env_def initial_state_def dec_int_def
      digit_char_def signed_divide_int_def signed_modulo_int_def)

text \<open>
  Claim C4, amended. The version line \<open>OpenGL <major>.<minor>\<close> is printed only on runs
  in which the loader returns a nonzero version, and on every such run, whether or not
  the capability check passes. A loader failure emits \<open>Something went wrong!\<close> alone,
  with no version line; a run that fails the capability check emits the version line
  followed by the capability diagnostic.
\<close>

theorem version_line_printed_iff_loaded:
  "(gladLoadGLInternalLoader e = 0 \<longrightarrow>
      stdout (snd (main e s)) = stdout s @ ''Something went wrong!\<newline>'' \<and>
      (\<nexists>rest. stdout (snd (main e s)) = stdout s @ ''OpenGL '' @ rest)) \<and>
   (gladLoadGLInternalLoader e \<noteq> 0 \<longrightarrow>
      (\<exists>rest. stdout (snd (main e s)) =
         stdout s @ ''OpenGL '' @ dec_int (sint (gladLoadGLInternalLoader e) sdiv 10) @ ''.'' @
         dec_int (sint (gladLoadGLInternalLoader e) smod 10) @ ''\<newline>'' @ rest)) \<and>
   (gladLoadGLInternalLoader e \<noteq> 0 \<and> GLAD_GL_VERSION_2_0 e = 0 \<longrightarrow>
      stdout (snd (main e s)) =
        stdout s @ ''OpenGL '' @ dec_int (sint (gladLoadGLInternalLoader e) sdiv 10) @ ''.'' @
        dec_int (sint (gladLoadGLInternalLoader e) smod 10) @ ''\<newline>'' @
        ''Your system doesn't support OpenGL >= 2!\<newline>'')"
  by (simp add: stdout_main)

text \<open>
  The theorem for a loader that fails, and for a loader that reports OpenGL 1.5 without
  the 2.0 flag.
\<close>

theorem version_line_printed_iff_loaded_witness:
  "gladLoadGLInternalLoader (sample_env 0 1 []) = 0 \<and>
   stdout (snd (main (sample_env 0 1 []) initial_state)) = ''Something went wrong!\<newline>'' \<and>
   gladLoadGLInternalLoader (sample_env 15 0 []) \<noteq> 0 \<and>
   GLAD_GL_VERSION_2_0 (sample_env 15 0 []) = 0 \<and>
   stdout (snd (main (sample_env 15 0 []) initial_state)) =
     ''OpenGL 1.5\<newline>Your system doesn't support OpenGL >= 2!\<newline>''"
  using version_line_printed_iff_loaded [of "sample_env 0 1 []" initial_state]
    version_line_printed_iff_loaded [of "sample_env 15 0 []" initial_state]
  by (simp add: sample_env_def initial_state_def dec_int_def digit_char_def
      signed_divide_int_def signed_modulo_int_def)

text \<open>
  Claim C5 as stated fails: \<open>main\<close> reads the stored width and height (line 41 passes
  them to \<open>glutInitWindowSize\<close>). Started with the width 800 instead of 600, \<open>main\<close>
  leaves another initial window size behind, so its effect depends on the stored width.
\<close>

theorem dimensions_read_only_by_reshape_counterexample:
  "init_window_size (glut (snd (main (sample_env 33 1 [])
      (initial_state\<lparr>width := 800\<rparr>)))) = (800, 600) \<and>
   init_window_size (glut (snd (main (sample_env 33 1 []) initial_state))) = (600, 600) \<and>
   snd (main (sample_env 33 1 []) (initial_state\<lparr>width := 800\<rparr>)) \<noteq>
     (snd (main (sample_env 33 1 []) initial_state))\<lparr>width := 800\<rparr>"
proof -
  have a: "init_window_size (glut (snd (main (sample_env 33 1 [])
      (initial_state\<lparr>width := 800\<rparr>)))) = (800, 600)"
    by (simp add: window_size_main initial_state_def)
  have b: "init_window_size (glut (snd (main (sample_env 33 1 []) initial_state))) = (600, 600)"
    by (simp add: window_size_main initial_state_def)
  have c: "snd (main (sample_env 33 1 []) (initial_state\<lparr>width := 800\<rparr>)) \<noteq>
     (snd (main (sample_env 33 1 []) initial_state))\<lparr>width := 800\<rparr>"
  proof
    assume "snd (main (sample_env 33 1 []) (initial_state\<lparr>width := 800\<rparr>)) =
      (snd (main (sample_env 33 1 []) initial_state))\<lparr>width := 800\<rparr>"
    then have "init_window_size (glut (snd (main (sample_env 33 1 [])
        (initial_state\<lparr>width := 800\<rparr>)))) =
      init_window_size (glut (snd (main (sample_env 33 1 []) initial_state)))"
      by simp
    then show False
      unfolding a b by simp
  qed
  from a b c show ?thesis by simp
qed

text \<open>
  Claim C5, amended. The stored width and height are written only by the resize
  callback, and read by the resize callback (for the viewport) and by \<open>main\<close> (for the
  initial window size). The display callback neither reads nor writes them: it commutes
  with any change of the two variables. \<open>main\<close> sets the initial window size to the
  stored values; when no resize event is dispatched it leaves the two variables as they
  were, and changing them beforehand changes nothing but the initial window size.
\<close>

theorem dimensions_written_by_reshape_read_by_reshape_and_main:
  "display (s\<lparr>width := a, height := b\<rparr>) = (display s)\<lparr>width := a, height := b\<rparr> \<and>
   viewport (gl (reshape w h s)) = (0, 0, width (reshape w h s), height (reshape w h s)) \<and>
   init_window_size (glut (snd (main e s))) = (width s, height s) \<and>
   ((\<forall>ev \<in> set (events e). ev = Display_event) \<longrightarrow>
      width (snd (main e s)) = width s \<and> height (snd (main e s)) = height s \<and>
      fst (main e (s\<lparr>width := a, height := b\<rparr>)) = fst (main e s) \<and>
      snd (main e (s\<lparr>width := a, height := b\<rparr>)) =
        (snd (main e s))\<lparr>width := a, height := b,
          glut := (glut (snd (main e s)))\<lparr>init_window_size := (a, b)\<rparr>\<rparr>)"
proof -
  have "display (s\<lparr>width := a, height := b\<rparr>) = (display s)\<lparr>width := a, height := b\<rparr>"
    by (simp add: display_def Let_def)
  moreover have "viewport (gl (reshape w h s)) =
      (0, 0, width (reshape w h s), height (reshape w h s))"
    by (simp add: gl_reshape width_reshape height_reshape)
  ultimately show ?thesis
    by (simp add: window_size_main dims_main_display_only main_window_size fst_main)
qed

text \<open>
  The theorem for a successful run with two display events and no resize event.
\<close>

theorem dimensions_written_by_reshape_read_by_reshape_and_main_witness:
  "events (sample_env 33 1 [Display_event, Display_event]) = [Display_event, Display_event] \<and>
   width (snd (main (sample_env 33 1 [Display_event, Display_event]) initial_state)) = 600 \<and>
   height (snd (main (sample_env 33 1 [Display_event, Display_event]) initial_state)) = 600 \<and>
   init_window_size (glut (snd (main (sample_env 33 1 [Display_event, Display_event])
      (initial_state\<lparr>width := 800, height := 700\<rparr>)))) = (800, 700)"
  using dimensions_written_by_reshape_read_by_reshape_and_main
    [where e = "sample_env 33 1 [Display_event, Display_event]" and s = initial_state
      and a = 800 and b = 700]
  by (simp add: sample_env_def initial_state_def)

text \<open>
  Claim C6. The stored width and height are at least 1 at all times: in the initial
  state (600 by 600) and after any sequence of operations of the program.
\<close>

theorem dimensions_always_positive:
  "1 \<le> sint (width (perform_all ops initial_state)) \<and>
   1 \<le> sint (height (perform_all ops initial_state))"
proof -
  have "1 \<le>s width initial_state \<and> 1 \<le>s height initial_state"
    by (simp add: initial_state_def word_sle_eq)
  then have "1 \<le>s width (perform_all ops initial_state) \<and>
      1 \<le>s height (perform_all ops initial_state)"
    by (rule positive_perform_all)
  then show ?thesis by (simp add: word_sle_eq)
qed

text \<open>
  Claim C7. For every input \<open>(w, h)\<close> and every prior state, after \<open>reshape w h\<close> the
  viewport is the rectangle at the origin with the stored (clamped) dimensions, the clear
  depth is 1.0, the clear colour is transparent black and depth testing is enabled.
\<close>

theorem reshape_sets_gl_state:
  "viewport (gl (reshape w h s)) = (0, 0, width (reshape w h s), height (reshape w h s)) \<and>
   sint (width (reshape w h s)) = max 1 (sint w) \<and>
   sint (height (reshape w h s)) = max 1 (sint h) \<and>
   clear_depth (gl (reshape w h s)) = 1 \<and>
   clear_color (gl (reshape w h s)) = (0, 0, 0, 0) \<and>
   GL_DEPTH_TEST \<in> enabled (gl (reshape w h s))"
  by (simp add: gl_reshape width_reshape height_reshape clamp_sint)

text \<open>
  Claim C8. On a successful run (nonzero version, 2.0 flag set) \<open>main\<close> enters the event
  loop having printed \<open>OpenGL %d.%d\<close> with the version divided by 10 and the version
  modulo 10, followed by the line with the two driver strings. For an encoded version
  \<open>major * 10 + minor\<close> with \<open>minor < 10\<close> the first line is \<open>OpenGL major.minor\<close>;
  the encoded version 33 gives \<open>OpenGL 3.3\<close>.
\<close>

theorem successful_run_prints_decoded_version:
  assumes "gladLoadGLInternalLoader e \<noteq> 0" and "GLAD_GL_VERSION_2_0 e \<noteq> 0"
  shows "fst (main e s) = In_main_loop \<and>
    stdout (snd (main e s)) =
      stdout s @ ''OpenGL '' @ dec_int (sint (gladLoadGLInternalLoader e) sdiv 10) @ ''.'' @
      dec_int (sint (gladLoadGLInternalLoader e) smod 10) @ ''\<newline>'' @
      ''OpenGL '' @ glGetString e GL_VERSION @ '', GLSL '' @
      glGetString e GL_SHADING_LANGUAGE_VERSION @ ''\<newline>'' \<and>
    (sint (gladLoadGLInternalLoader e) = 10 * int major + int minor \<and> minor < 10 \<longrightarrow>
      stdout (snd (main e s)) =
        stdout s @ ''OpenGL '' @ dec_nat major @ ''.'' @ dec_nat minor @ ''\<newline>'' @
        ''OpenGL '' @ glGetString e GL_VERSION @ '', GLSL '' @
        glGetString e GL_SHADING_LANGUAGE_VERSION @ ''\<newline>'')"
proof -
  have "dec_int (sint (gladLoadGLInternalLoader e) sdiv 10) = dec_nat major \<and>
      dec_int (sint (gladLoadGLInternalLoader e) smod 10) = dec_nat minor"
    if "sint (gladLoadGLInternalLoader e) = 10 * int major + int minor" and "minor < 10"
    using decode_encoded_version [OF that] by (simp add: dec_int_of_nat)
  then show ?thesis
    using assms by (simp add: fst_main stdout_main)
qed

text \<open>
  The theorem at the encoded version 33 with a driver that reports OpenGL 4.6.
\<close>

theorem successful_run_prints_decoded_version_witness:
  "gladLoadGLInternalLoader (sample_env 33 1 [Display_event]) \<noteq> 0 \<and>
   GLAD_GL_VERSION_2_0 (sample_env 33 1 [Display_event]) \<noteq> 0 \<and>
   sint (gladLoadGLInternalLoader (sample_env 33 1 [Display_event])) = 10 * int 3 + int 3 \<and>
   (3 :: nat) < 10 \<and>
   stdout (snd (main (sample_env 33 1 [Display_event]) initial_state)) =
     ''OpenGL 3.3\<newline>OpenGL 4.6.0, GLSL 4.60\<newline>''"
  using successful_run_prints_decoded_version
    [where e = "sample_env 33 1 [Display_event]" and s = initial_state and major = 3
      and minor = 3]
  by (simp add: sample_env_def initial_state_def dec_int_def digit_char_def)

text \<open>
  Claim C9. The display callback leaves the stored width and height as they were.
\<close>

theorem display_keeps_dimensions:
  "width (display s) = width s \<and> height (display s) = height s"
  by (simp add: width_display height_display)

text \<open>
  Claim C10. The width and height that \<open>reshape w h\<close> stores depend on \<open>(w, h)\<close> only:
  from any two prior states the stored values agree. Running \<open>reshape w h\<close> a second
  time changes nothing at all.
\<close>

theorem reshape_depends_on_arguments_only:
  "width (reshape w h s1) = width (reshape w h s2) \<and>
   height (reshape w h s1) = height (reshape w h s2) \<and>
   reshape w h (reshape w h s) = reshape w h s"
  by (simp add: reshape_def Let_def glViewport_def glClearDepth_def glClearColor_def
      glEnable_def)

end
